theory Spec2Isabelle
  imports Main "HOL-Library.Sublist"
begin

section \<open>The messaging facade of react-native-firebase\<close>

text \<open>
  A shallow embedding of \<^verbatim>\<open>src/modules/messaging/index.js\<close>: the class
  \<^verbatim>\<open>Messaging\<close>, a wrapper that validates its arguments, forwards to a native module
  and fans native events out on a shared event emitter.

  Effects are explicit. A method takes the state and returns its outcome together with
  the new state. A synchronous \<^verbatim>\<open>throw\<close> is the outcome \<open>Inl e\<close>; a returned value is
  \<open>Inr v\<close>. The state records the listener registry of the shared emitter, the calls made
  to the native module, the invocations of user callbacks and the lines written to the
  logger.
\<close>

subsection \<open>JavaScript values\<close>

text \<open>
  The values a caller can pass. A function value carries its identity: two function
  values are the same callback exactly when the identities agree. Numbers are integers
  here: every path of this module treats all numbers alike, except truthiness, which
  is only ever computed for \<^verbatim>\<open>undefined\<close> and strings.
  \<open>JRemoteMessage p\<close> is an instance of the class \<^verbatim>\<open>RemoteMessage\<close> wrapping the
  payload \<open>p\<close>; the class itself lives in \<^verbatim>\<open>./RemoteMessage\<close>.
\<close>

datatype jsval =
    JUndefined
  | JNull
  | JBool bool
  | JNumber int
  | JString string
  | JSymbol nat
  | JFunction nat
  | JArray "jsval list"
  | JObject "(string \<times> jsval) list"
  | JRemoteMessage jsval

datatype js_error = Error string | TypeError string

text \<open>
  A promise is settled with a value, settled with an error, or the handle of an
  operation still outstanding in the native layer.
\<close>

datatype promise = Resolved jsval | Rejected js_error | Pending nat

text \<open>The operator \<^verbatim>\<open>typeof\<close>.\<close>

fun typeof :: "jsval \<Rightarrow> string" where
  "typeof JUndefined = ''undefined''"
| "typeof JNull = ''object''"
| "typeof (JBool b) = ''boolean''"
| "typeof (JNumber n) = ''number''"
| "typeof (JString s) = ''string''"
| "typeof (JSymbol n) = ''symbol''"
| "typeof (JFunction f) = ''function''"
| "typeof (JArray xs) = ''object''"
| "typeof (JObject ps) = ''object''"
| "typeof (JRemoteMessage p) = ''object''"

text \<open>Truthiness, and \<^verbatim>\<open>a || b\<close>.\<close>

fun js_truthy :: "jsval \<Rightarrow> bool" where
  "js_truthy JUndefined = False"
| "js_truthy JNull = False"
| "js_truthy (JBool b) = b"
| "js_truthy (JNumber n) = (n \<noteq> 0)"
| "js_truthy (JString s) = (s \<noteq> [])"
| "js_truthy (JSymbol n) = True"
| "js_truthy (JFunction f) = True"
| "js_truthy (JArray xs) = True"
| "js_truthy (JObject ps) = True"
| "js_truthy (JRemoteMessage p) = True"

definition js_or :: "jsval \<Rightarrow> jsval \<Rightarrow> jsval" where
  "js_or a b = (if js_truthy a then a else b)"

text \<open>
  Member access \<^verbatim>\<open>v.k\<close> on a value that is neither \<^verbatim>\<open>undefined\<close> nor \<^verbatim>\<open>null\<close>. The
  module reads the members \<^verbatim>\<open>appName\<close>, \<^verbatim>\<open>senderId\<close> and \<^verbatim>\<open>next\<close> only; primitives,
  functions, arrays and \<^verbatim>\<open>RemoteMessage\<close> instances have no member of these names.
\<close>

fun get_prop :: "jsval \<Rightarrow> string \<Rightarrow> jsval" where
  "get_prop (JObject ps) k = (case map_of ps k of Some v \<Rightarrow> v | None \<Rightarrow> JUndefined)"
| "get_prop v k = JUndefined"

text \<open>
  Modelled from the spec: the class \<^verbatim>\<open>RemoteMessage\<close> is imported from
  \<^verbatim>\<open>./RemoteMessage\<close>, which is not among the sources. The specification calls it "an
  immutable value object wrapping a key/value payload", "constructed from either a
  native-origin map or user-supplied fields": \<^verbatim>\<open>new RemoteMessage(message)\<close> wraps the
  message it is given.
\<close>

definition new_RemoteMessage :: "jsval \<Rightarrow> jsval" where
  "new_RemoteMessage message = JRemoteMessage message"

text \<open>\<^verbatim>\<open>v instanceof RemoteMessage\<close>.\<close>

fun instanceof_RemoteMessage :: "jsval \<Rightarrow> bool" where
  "instanceof_RemoteMessage (JRemoteMessage p) = True"
| "instanceof_RemoteMessage v = False"

subsection \<open>Helpers of the module\<close>

definition isUndefined :: "jsval \<Rightarrow> bool" where
  "isUndefined v = (typeof v = ''undefined'')"

definition isString :: "jsval \<Rightarrow> bool" where
  "isString v = (typeof v = ''string'')"

text \<open>
  Modelled from the spec: \<^verbatim>\<open>isFunction\<close> is imported from \<^verbatim>\<open>../../utils\<close>, which is not
  among the sources. The specification accepts a handler that "is either a unary
  callback or an object exposing a \<^verbatim>\<open>next\<close> callback": this helper recognises the
  function values.
\<close>

definition isFunction :: "jsval \<Rightarrow> bool" where
  "isFunction v = (typeof v = ''function'')"

text \<open>
  Modelled from the spec: \<^verbatim>\<open>isObject\<close> is imported from \<^verbatim>\<open>../../utils\<close>, which is not
  among the sources. It recognises the objects among the values, those that can expose
  a \<^verbatim>\<open>next\<close> callback.
\<close>

definition isObject :: "jsval \<Rightarrow> bool" where
  "isObject v = (typeof v = ''object'' \<and> v \<noteq> JNull)"

text \<open>
  Modelled from the spec: \<^verbatim>\<open>INTERNALS.STRINGS.ERROR_UNSUPPORTED_MODULE_METHOD\<close> comes
  from \<^verbatim>\<open>../../utils/internals\<close>, which is not among the sources. The specification
  says of it only that the error message names the calling module and the method.
\<close>

definition ERROR_UNSUPPORTED_MODULE_METHOD :: "string \<Rightarrow> string \<Rightarrow> string" where
  "ERROR_UNSUPPORTED_MODULE_METHOD namespace method =
     ''firebase.'' @ namespace @ ''().'' @ method @ ''() is unsupported.''"

subsection \<open>The application, the native module and the state\<close>

record app_options =
  messagingSenderId :: jsval

record app =
  name :: jsval
  options :: app_options

text \<open>
  The native module is an external collaborator, so it is a parameter: each method maps
  its arguments to a synchronous throw (\<open>Inl\<close>) or to the promise it returns (\<open>Inr\<close>).
  \<^verbatim>\<open>getNativeModule(this)\<close> looks the module up and is taken to return it.
\<close>

record native_module =
  native_jsInitialised :: "js_error + promise"
  native_getToken :: "jsval \<Rightarrow> jsval \<Rightarrow> js_error + promise"
  native_deleteToken :: "jsval \<Rightarrow> jsval \<Rightarrow> js_error + promise"
  native_requestPermission :: "js_error + promise"
  native_hasPermission :: "js_error + promise"
  native_sendMessage :: "jsval \<Rightarrow> js_error + promise"
  native_subscribeToTopic :: "jsval \<Rightarrow> js_error + promise"
  native_unsubscribeFromTopic :: "jsval \<Rightarrow> js_error + promise"

datatype native_call = NativeCall string "jsval list"

text \<open>
  A listener held by the shared emitter: a value a caller registered, or one of the two
  closures the constructor registers.
\<close>

datatype listener = Callback jsval | MessageFanOut | TokenFanOut

record state =
  listeners :: "string \<Rightarrow> listener list"
  native_calls :: "native_call list"
  invocations :: "(jsval \<times> jsval) list"
  log_info :: "string list"

definition initial_state :: state where
  "initial_state = \<lparr>listeners = (\<lambda>ch. []), native_calls = [], invocations = [], log_info = []\<rparr>"

definition record_native_call :: "string \<Rightarrow> jsval list \<Rightarrow> state \<Rightarrow> state" where
  "record_native_call m args s = s\<lparr>native_calls := native_calls s @ [NativeCall m args]\<rparr>"

definition info :: "string \<Rightarrow> state \<Rightarrow> state" where
  "info msg s = s\<lparr>log_info := log_info s @ [msg]\<rparr>"

subsection \<open>The shared event emitter\<close>

text \<open>
  \<^verbatim>\<open>SharedEventEmitter\<close> comes from \<^verbatim>\<open>../../utils/events\<close>, which is not among the
  sources. The specification describes its registry as "a mapping from public event name
  to an ordered set of callback handles", where a disposer "removes exactly that
  callback", "all registered listeners for a channel receive every event posted to that
  channel" and "handlers are invoked in registration order".
\<close>

text \<open>
  Modelled from the spec: \<^verbatim>\<open>SharedEventEmitter.addListener\<close>, absent from the sources.
  The channel is an ordered set: a listener that the channel does not hold yet is
  appended.
\<close>

definition addListener :: "string \<Rightarrow> listener \<Rightarrow> state \<Rightarrow> state" where
  "addListener ch l s =
     (if l \<in> set (listeners s ch) then s
      else s\<lparr>listeners := (listeners s)(ch := listeners s ch @ [l])\<rparr>)"

text \<open>
  Modelled from the spec: \<^verbatim>\<open>SharedEventEmitter.removeListener\<close>, absent from the
  sources. It takes exactly the given listener out of the channel.
\<close>

definition removeListener :: "string \<Rightarrow> listener \<Rightarrow> state \<Rightarrow> state" where
  "removeListener ch l s = s\<lparr>listeners := (listeners s)(ch := removeAll l (listeners s ch))\<rparr>"

text \<open>
  Invoking a user callback is recorded in \<open>invocations\<close> as the pair of the callback and
  its argument; what the callback then does is not part of this module.
\<close>

definition record_invocation :: "jsval \<Rightarrow> jsval \<Rightarrow> state \<Rightarrow> state" where
  "record_invocation f v s = s\<lparr>invocations := invocations s @ [(f, v)]\<rparr>"

text \<open>
  Modelled from the spec: the dispatch loop of \<^verbatim>\<open>SharedEventEmitter.emit\<close>, absent from
  the sources. Every listener in the list is invoked, in order. The bodies of the two
  closures are those of the constructor in the source: the first emits
  \<^verbatim>\<open>new RemoteMessage(message)\<close> on \<^verbatim>\<open>onMessage\<close>, the second emits the token on
  \<^verbatim>\<open>onTokenRefresh\<close>. That nesting is bounded by fuel: \<open>None\<close> means that the fuel ran
  out.
\<close>

fun invoke_all :: "nat \<Rightarrow> listener list \<Rightarrow> jsval \<Rightarrow> state \<Rightarrow> state option" where
  "invoke_all k [] v s = Some s"
| "invoke_all k (Callback f # ls) v s = invoke_all k ls v (record_invocation f v s)"
| "invoke_all 0 (MessageFanOut # ls) v s = None"
| "invoke_all (Suc k) (MessageFanOut # ls) v s =
     (case invoke_all k (listeners s ''onMessage'') (new_RemoteMessage v) s of
        None \<Rightarrow> None
      | Some s' \<Rightarrow> invoke_all (Suc k) ls v s')"
| "invoke_all 0 (TokenFanOut # ls) v s = None"
| "invoke_all (Suc k) (TokenFanOut # ls) v s =
     (case invoke_all k (listeners s ''onTokenRefresh'') v s of
        None \<Rightarrow> None
      | Some s' \<Rightarrow> invoke_all (Suc k) ls v s')"

text \<open>
  Modelled from the spec: \<^verbatim>\<open>SharedEventEmitter.emit\<close>, absent from the sources. The
  listeners of the channel receive the event. An inbound native event is such an emit on
  the channel of its name.
\<close>

definition emit :: "nat \<Rightarrow> string \<Rightarrow> jsval \<Rightarrow> state \<Rightarrow> state option" where
  "emit k ch v s = invoke_all k (listeners s ch) v s"

subsection \<open>The class Messaging\<close>

text \<open>
  The constructor subscribes to the two native events and fans them out on the public
  channels: a received message is wrapped with \<^verbatim>\<open>new RemoteMessage(message)\<close>, a
  refreshed token is passed on as it is. On iOS it then tells the native module that
  the facade is ready. The base-class constructor and the iOS sub-facade are not among
  the sources and are left out.
\<close>

definition Messaging_constructor ::
    "string \<Rightarrow> native_module \<Rightarrow> state \<Rightarrow> (js_error + unit) \<times> state" where
  "Messaging_constructor platform_OS nm s =
     (let s1 = addListener ''messaging_message_received'' MessageFanOut s;
          s2 = addListener ''messaging_token_refreshed'' TokenFanOut s1
      in if platform_OS = ''ios''
         then (case native_jsInitialised nm of
                 Inl e \<Rightarrow> (Inl e, record_native_call ''jsInitialised'' [] s2)
               | Inr p \<Rightarrow> (Inr (), record_native_call ''jsInitialised'' [] s2))
         else (Inr (), s2))"

text \<open>
  The parameter pattern \<^verbatim>\<open>{ appName, senderId } = {}\<close>: an absent argument is replaced
  by the empty object, \<^verbatim>\<open>null\<close> cannot be destructured (the engine raises a
  \<^verbatim>\<open>TypeError\<close>, whose text is the engine's), any other value is read member by member.
\<close>

definition destructure_TokenOptions :: "jsval \<Rightarrow> js_error + (jsval \<times> jsval)" where
  "destructure_TokenOptions arg =
     (if arg = JUndefined then Inr (JUndefined, JUndefined)
      else if arg = JNull then Inl (TypeError ''Cannot destructure property 'appName' of null'')
      else Inr (get_prop arg ''appName'', get_prop arg ''senderId''))"

definition getToken ::
    "native_module \<Rightarrow> app \<Rightarrow> jsval \<Rightarrow> state \<Rightarrow> (js_error + promise) \<times> state" where
  "getToken nm a arg s =
     (case destructure_TokenOptions arg of
        Inl e \<Rightarrow> (Inl e, s)
      | Inr (appName, senderId) \<Rightarrow>
          if \<not> isUndefined appName \<and> \<not> isString appName
          then (Inl (Error ''firebase.messaging().getToken(*) 'projectId' expected a string.''), s)
          else if \<not> isUndefined senderId \<and> \<not> isString senderId
          then (Inl (Error ''firebase.messaging().getToken(*) 'senderId' expected a string.''), s)
          else (native_getToken nm (js_or appName (name a))
                  (js_or senderId (messagingSenderId (options a))),
                record_native_call ''getToken''
                  [js_or appName (name a), js_or senderId (messagingSenderId (options a))] s))"

definition deleteToken ::
    "native_module \<Rightarrow> app \<Rightarrow> jsval \<Rightarrow> state \<Rightarrow> (js_error + promise) \<times> state" where
  "deleteToken nm a arg s =
     (case destructure_TokenOptions arg of
        Inl e \<Rightarrow> (Inl e, s)
      | Inr (appName, senderId) \<Rightarrow>
          if \<not> isUndefined appName \<and> \<not> isString appName
          then (Inl (Error ''firebase.messaging().deleteToken(*) 'projectId' expected a string.''), s)
          else if \<not> isUndefined senderId \<and> \<not> isString senderId
          then (Inl (Error ''firebase.messaging().deleteToken(*) 'senderId' expected a string.''), s)
          else (native_deleteToken nm (js_or appName (name a))
                  (js_or senderId (messagingSenderId (options a))),
                record_native_call ''deleteToken''
                  [js_or appName (name a), js_or senderId (messagingSenderId (options a))] s))"

text \<open>
  The disposer returned by a registration is a closure over the listener; running it
  logs and removes that listener from the channel it was registered on.
\<close>

datatype disposer = OnMessageDisposer listener | OnTokenRefreshDisposer listener

fun run_disposer :: "disposer \<Rightarrow> state \<Rightarrow> state" where
  "run_disposer (OnMessageDisposer l) s =
     removeListener ''onMessage'' l (info ''Removing onMessage listener'' s)"
| "run_disposer (OnTokenRefreshDisposer l) s =
     removeListener ''onTokenRefresh'' l (info ''Removing onTokenRefresh listener'' s)"

definition onMessage :: "jsval \<Rightarrow> state \<Rightarrow> (js_error + disposer) \<times> state" where
  "onMessage nextOrObserver s =
     (if isFunction nextOrObserver
      then (Inr (OnMessageDisposer (Callback nextOrObserver)),
            addListener ''onMessage'' (Callback nextOrObserver)
              (info ''Creating onMessage listener'' s))
      else if isObject nextOrObserver \<and> isFunction (get_prop nextOrObserver ''next'')
      then (Inr (OnMessageDisposer (Callback (get_prop nextOrObserver ''next''))),
            addListener ''onMessage'' (Callback (get_prop nextOrObserver ''next''))
              (info ''Creating onMessage listener'' s))
      else (Inl (Error ''Messaging.onMessage failed: First argument must be a function or observer object with a `next` function.''), s))"

definition onTokenRefresh :: "jsval \<Rightarrow> state \<Rightarrow> (js_error + disposer) \<times> state" where
  "onTokenRefresh nextOrObserver s =
     (if isFunction nextOrObserver
      then (Inr (OnTokenRefreshDisposer (Callback nextOrObserver)),
            addListener ''onTokenRefresh'' (Callback nextOrObserver)
              (info ''Creating onTokenRefresh listener'' s))
      else if isObject nextOrObserver \<and> isFunction (get_prop nextOrObserver ''next'')
      then (Inr (OnTokenRefreshDisposer (Callback (get_prop nextOrObserver ''next''))),
            addListener ''onTokenRefresh'' (Callback (get_prop nextOrObserver ''next''))
              (info ''Creating onTokenRefresh listener'' s))
      else (Inl (Error ''Messaging.onTokenRefresh failed: First argument must be a function or observer object with a `next` function.''), s))"

definition requestPermission :: "native_module \<Rightarrow> state \<Rightarrow> (js_error + promise) \<times> state" where
  "requestPermission nm s = (native_requestPermission nm, record_native_call ''requestPermission'' [] s)"

definition hasPermission :: "native_module \<Rightarrow> state \<Rightarrow> (js_error + promise) \<times> state" where
  "hasPermission nm s = (native_hasPermission nm, record_native_call ''hasPermission'' [] s)"

text \<open>
  \<^verbatim>\<open>sendMessage\<close>: \<open>build\<close> is the method \<^verbatim>\<open>RemoteMessage.build\<close>, a parameter because the
  class is not among the sources; applied to the message it returns the serialised
  message or throws. The \<^verbatim>\<open>try\<close> block covers the serialisation and the native call,
  and the \<^verbatim>\<open>catch\<close> turns what either throws into a rejected promise.
\<close>

definition sendMessage ::
    "(jsval \<Rightarrow> js_error + jsval) \<Rightarrow> native_module \<Rightarrow> jsval \<Rightarrow> state
       \<Rightarrow> (js_error + promise) \<times> state" where
  "sendMessage build nm remoteMessage s =
     (if \<not> instanceof_RemoteMessage remoteMessage
      then (Inr (Rejected (Error (''Messaging:sendMessage expects a 'RemoteMessage' but got type ''
                                    @ typeof remoteMessage))), s)
      else (case build remoteMessage of
              Inl error \<Rightarrow> (Inr (Rejected error), s)
            | Inr built \<Rightarrow>
                (case native_sendMessage nm built of
                   Inl error \<Rightarrow> (Inr (Rejected error), record_native_call ''sendMessage'' [built] s)
                 | Inr result \<Rightarrow> (Inr result, record_native_call ''sendMessage'' [built] s))))"

definition subscribeToTopic ::
    "native_module \<Rightarrow> jsval \<Rightarrow> state \<Rightarrow> (js_error + promise) \<times> state" where
  "subscribeToTopic nm topic s =
     (native_subscribeToTopic nm topic, record_native_call ''subscribeToTopic'' [topic] s)"

definition unsubscribeFromTopic ::
    "native_module \<Rightarrow> jsval \<Rightarrow> state \<Rightarrow> (js_error + promise) \<times> state" where
  "unsubscribeFromTopic nm topic s =
     (native_unsubscribeFromTopic nm topic, record_native_call ''unsubscribeFromTopic'' [topic] s)"

text \<open>The two methods that exist only to refuse; whatever is passed is ignored.\<close>

definition setBackgroundMessageHandler :: "jsval list \<Rightarrow> state \<Rightarrow> (js_error + jsval) \<times> state" where
  "setBackgroundMessageHandler args s =
     (Inl (Error (ERROR_UNSUPPORTED_MODULE_METHOD ''messaging'' ''setBackgroundMessageHandler'')), s)"

definition useServiceWorker :: "jsval list \<Rightarrow> state \<Rightarrow> (js_error + jsval) \<times> state" where
  "useServiceWorker args s =
     (Inl (Error (ERROR_UNSUPPORTED_MODULE_METHOD ''messaging'' ''useServiceWorker'')), s)"

subsection \<open>Vocabulary of the properties\<close>

text \<open>The user callbacks among the listeners of a channel, in registration order.\<close>

fun callbacks_of :: "listener list \<Rightarrow> jsval list" where
  "callbacks_of [] = []"
| "callbacks_of (Callback f # ls) = f # callbacks_of ls"
| "callbacks_of (MessageFanOut # ls) = callbacks_of ls"
| "callbacks_of (TokenFanOut # ls) = callbacks_of ls"

text \<open>
  A channel that holds user callbacks only. The methods of the facade register nothing
  else on the two public channels.
\<close>

definition only_callbacks :: "listener list \<Rightarrow> bool" where
  "only_callbacks ls = (MessageFanOut \<notin> set ls \<and> TokenFanOut \<notin> set ls)"

text \<open>What invoking a list of listeners with \<open>v\<close> delivers: the callback and its argument.\<close>

fun deliveries :: "state \<Rightarrow> jsval \<Rightarrow> listener list \<Rightarrow> (jsval \<times> jsval) list" where
  "deliveries s v [] = []"
| "deliveries s v (Callback f # ls) = (f, v) # deliveries s v ls"
| "deliveries s v (MessageFanOut # ls) =
     map (\<lambda>f. (f, new_RemoteMessage v)) (callbacks_of (listeners s ''onMessage'')) @ deliveries s v ls"
| "deliveries s v (TokenFanOut # ls) =
     map (\<lambda>f. (f, v)) (callbacks_of (listeners s ''onTokenRefresh'')) @ deliveries s v ls"

text \<open>
  The specification's reading of a handler, to be compared with the checks of
  \<open>onMessage\<close> and \<open>onTokenRefresh\<close>: a function stands for itself, an object whose
  \<^verbatim>\<open>next\<close> member is a function stands for that member, nothing else is a handler.
\<close>

definition handler_callback :: "jsval \<Rightarrow> jsval option" where
  "handler_callback h =
     (case h of
        JFunction f \<Rightarrow> Some (JFunction f)
      | JObject ps \<Rightarrow>
          (case map_of ps ''next'' of Some (JFunction g) \<Rightarrow> Some (JFunction g) | _ \<Rightarrow> None)
      | _ \<Rightarrow> None)"

subsection \<open>Concrete collaborators and states\<close>

definition example_app :: app where
  "example_app = \<lparr>name = JString ''[DEFAULT]'', options = \<lparr>messagingSenderId = JString ''1234567890''\<rparr>\<rparr>"

text \<open>A native module whose calls all return a promise.\<close>

definition example_native :: native_module where
  "example_native =
     \<lparr>native_jsInitialised = Inr (Resolved JUndefined),
      native_getToken = (\<lambda>appName senderId. Inr (Resolved (JString ''token''))),
      native_deleteToken = (\<lambda>appName senderId. Inr (Resolved JUndefined)),
      native_requestPermission = Inr (Resolved JUndefined),
      native_hasPermission = Inr (Resolved (JBool True)),
      native_sendMessage = (\<lambda>message. Inr (Pending 0)),
      native_subscribeToTopic = (\<lambda>topic. Inr (Pending 1)),
      native_unsubscribeFromTopic = (\<lambda>topic. Inr (Pending 2))\<rparr>"

text \<open>
  A native module whose \<^verbatim>\<open>sendMessage\<close> throws, and whose topic methods throw on a topic
  that is not a string.
\<close>

definition strict_native :: native_module where
  "strict_native =
     example_native
       \<lparr>native_sendMessage := (\<lambda>message. Inl (TypeError ''native sendMessage failed'')),
        native_subscribeToTopic :=
          (\<lambda>topic. if isString topic then Inr (Pending 1) else Inl (TypeError ''topic must be a string'')),
        native_unsubscribeFromTopic :=
          (\<lambda>topic. if isString topic then Inr (Pending 2) else Inl (TypeError ''topic must be a string''))\<rparr>"

text \<open>A serialisation that refuses a message without recipient.\<close>

definition example_build :: "jsval \<Rightarrow> js_error + jsval" where
  "example_build m =
     (case m of
        JRemoteMessage p \<Rightarrow>
          (if get_prop p ''to'' = JUndefined
           then Inl (Error ''RemoteMessage: Missing required `to` property'')
           else Inr p)
      | _ \<Rightarrow> Inl (TypeError ''not a RemoteMessage''))"

definition constructed :: state where
  "constructed = snd (Messaging_constructor ''android'' example_native initial_state)"

definition two_listeners :: state where
  "two_listeners =
     snd (onMessage (JObject [(''next'', JFunction 2)]) (snd (onMessage (JFunction 1) constructed)))"

definition two_token_listeners :: state where
  "two_token_listeners =
     snd (onTokenRefresh (JFunction 4) (snd (onTokenRefresh (JFunction 3) constructed)))"

section \<open>Properties\<close>

subsection \<open>The helpers decide by the kind of value\<close>

lemma isUndefined_iff: "isUndefined v \<longleftrightarrow> v = JUndefined"
  by (cases v) (simp_all add: isUndefined_def)

lemma isString_iff: "isString v \<longleftrightarrow> (\<exists>str. v = JString str)"
  by (cases v) (simp_all add: isString_def)

lemma isFunction_iff: "isFunction v \<longleftrightarrow> (\<exists>f. v = JFunction f)"
  by (cases v) (simp_all add: isFunction_def)

subsection \<open>sendMessage\<close>

text \<open>
  C1: for every value that is not an instance of \<^verbatim>\<open>RemoteMessage\<close>, \<^verbatim>\<open>sendMessage\<close>
  does not throw: it returns a rejected promise whose error message ends with the
  \<^verbatim>\<open>typeof\<close> of the value received, and the state, with it the list of native calls,
  is left as it was.
\<close>

theorem sendMessage_rejects_non_RemoteMessage:
  "\<not> instanceof_RemoteMessage v \<Longrightarrow>
     sendMessage build nm v s =
       (Inr (Rejected (Error (''Messaging:sendMessage expects a 'RemoteMessage' but got type ''
                               @ typeof v))), s) \<and>
     native_calls (snd (sendMessage build nm v s)) = native_calls s"
  by (simp add: sendMessage_def)

theorem sendMessage_rejects_non_RemoteMessage_witness:
  "\<not> instanceof_RemoteMessage (JNumber 42) \<and>
   sendMessage example_build strict_native (JNumber 42) initial_state =
     (Inr (Rejected (Error ''Messaging:sendMessage expects a 'RemoteMessage' but got type number'')),
      initial_state) \<and>
   native_calls (snd (sendMessage example_build strict_native (JNumber 42) initial_state)) = []"
  using sendMessage_rejects_non_RemoteMessage [of "JNumber 42" example_build strict_native initial_state]
  by (simp add: initial_state_def)

text \<open>
  C7: for every instance of \<^verbatim>\<open>RemoteMessage\<close>, \<^verbatim>\<open>sendMessage\<close> returns a promise and
  never throws. When the serialisation throws, the promise is rejected with that error
  and no native call is made; when the native call throws, the promise is rejected with
  that error; otherwise the promise of the native call is returned.
\<close>

theorem sendMessage_never_throws:
  assumes "instanceof_RemoteMessage m"
  shows "(\<exists>p. fst (sendMessage build nm m s) = Inr p) \<and>
         (\<forall>e. build m = Inl e \<longrightarrow> sendMessage build nm m s = (Inr (Rejected e), s)) \<and>
         (\<forall>built e. build m = Inr built \<and> native_sendMessage nm built = Inl e \<longrightarrow>
            sendMessage build nm m s =
              (Inr (Rejected e), record_native_call ''sendMessage'' [built] s)) \<and>
         (\<forall>built p. build m = Inr built \<and> native_sendMessage nm built = Inr p \<longrightarrow>
            sendMessage build nm m s = (Inr p, record_native_call ''sendMessage'' [built] s))"
  using assms by (auto simp: sendMessage_def split: sum.splits)

theorem sendMessage_never_throws_witness:
  "instanceof_RemoteMessage (JRemoteMessage (JObject [])) \<and>
   example_build (JRemoteMessage (JObject [])) =
     Inl (Error ''RemoteMessage: Missing required `to` property'') \<and>
   sendMessage example_build strict_native (JRemoteMessage (JObject [])) initial_state =
     (Inr (Rejected (Error ''RemoteMessage: Missing required `to` property'')), initial_state) \<and>
   instanceof_RemoteMessage (JRemoteMessage (JObject [(''to'', JString ''someone'')])) \<and>
   example_build (JRemoteMessage (JObject [(''to'', JString ''someone'')])) =
     Inr (JObject [(''to'', JString ''someone'')]) \<and>
   native_sendMessage strict_native (JObject [(''to'', JString ''someone'')]) =
     Inl (TypeError ''native sendMessage failed'') \<and>
   fst (sendMessage example_build strict_native
          (JRemoteMessage (JObject [(''to'', JString ''someone'')])) initial_state) =
     Inr (Rejected (TypeError ''native sendMessage failed''))"
  using sendMessage_never_throws
      [of "JRemoteMessage (JObject [])" example_build strict_native initial_state]
    sendMessage_never_throws
      [of "JRemoteMessage (JObject [(''to'', JString ''someone'')])" example_build strict_native
          initial_state]
  by (simp add: example_build_def strict_native_def example_native_def)

subsection \<open>getToken and deleteToken\<close>

text \<open>
  C2: when the \<^verbatim>\<open>appName\<close> or the \<^verbatim>\<open>senderId\<close> read from the argument is neither
  \<^verbatim>\<open>undefined\<close> nor a string, \<^verbatim>\<open>getToken\<close> and \<^verbatim>\<open>deleteToken\<close> throw an \<^verbatim>\<open>Error\<close>
  saying which parameter expected a string (the specification's InvalidArgument), and
  the state, with it the list of native calls, is left as it was.
\<close>

theorem getToken_deleteToken_reject_non_strings:
  assumes "destructure_TokenOptions arg = Inr (appName, senderId)"
    and "(appName \<noteq> JUndefined \<and> (\<forall>str. appName \<noteq> JString str)) \<or>
         (senderId \<noteq> JUndefined \<and> (\<forall>str. senderId \<noteq> JString str))"
  shows "getToken nm a arg s =
           (Inl (Error (if appName \<noteq> JUndefined \<and> (\<forall>str. appName \<noteq> JString str)
                        then ''firebase.messaging().getToken(*) 'projectId' expected a string.''
                        else ''firebase.messaging().getToken(*) 'senderId' expected a string.'')), s) \<and>
         native_calls (snd (getToken nm a arg s)) = native_calls s \<and>
         deleteToken nm a arg s =
           (Inl (Error (if appName \<noteq> JUndefined \<and> (\<forall>str. appName \<noteq> JString str)
                        then ''firebase.messaging().deleteToken(*) 'projectId' expected a string.''
                        else ''firebase.messaging().deleteToken(*) 'senderId' expected a string.'')), s) \<and>
         native_calls (snd (deleteToken nm a arg s)) = native_calls s"
  using assms by (auto simp: getToken_def deleteToken_def isUndefined_iff isString_iff)

theorem getToken_deleteToken_reject_non_strings_witness:
  "destructure_TokenOptions (JObject [(''senderId'', JNumber 7)]) = Inr (JUndefined, JNumber 7) \<and>
   getToken strict_native example_app (JObject [(''senderId'', JNumber 7)]) initial_state =
     (Inl (Error ''firebase.messaging().getToken(*) 'senderId' expected a string.''), initial_state) \<and>
   deleteToken strict_native example_app (JObject [(''senderId'', JNumber 7)]) initial_state =
     (Inl (Error ''firebase.messaging().deleteToken(*) 'senderId' expected a string.''), initial_state) \<and>
   native_calls initial_state = []"
  using getToken_deleteToken_reject_non_strings
    [of "JObject [(''senderId'', JNumber 7)]" JUndefined "JNumber 7" strict_native example_app initial_state]
  by (simp add: destructure_TokenOptions_def initial_state_def)

lemma token_call:
  assumes "destructure_TokenOptions arg = Inr (appName, senderId)"
    and "appName = JUndefined \<or> (\<exists>str. appName = JString str)"
    and "senderId = JUndefined \<or> (\<exists>str. senderId = JString str)"
  shows "getToken nm a arg s =
           (native_getToken nm (js_or appName (name a))
              (js_or senderId (messagingSenderId (options a))),
            record_native_call ''getToken''
              [js_or appName (name a), js_or senderId (messagingSenderId (options a))] s)"
    and "deleteToken nm a arg s =
           (native_deleteToken nm (js_or appName (name a))
              (js_or senderId (messagingSenderId (options a))),
            record_native_call ''deleteToken''
              [js_or appName (name a), js_or senderId (messagingSenderId (options a))] s)"
  using assms
  by (auto simp: getToken_def deleteToken_def isUndefined_iff isString_iff)

text \<open>
  C8: when both members are \<^verbatim>\<open>undefined\<close> or strings, \<^verbatim>\<open>getToken\<close> and
  \<^verbatim>\<open>deleteToken\<close> make one native call with two arguments and return what it returns,
  unchanged. An absent \<^verbatim>\<open>appName\<close> is replaced by the name of the application, an
  absent \<^verbatim>\<open>senderId\<close> by its configured sender id; a non-empty string is passed as it is.
\<close>

theorem token_defaults:
  assumes "destructure_TokenOptions arg = Inr (appName, senderId)"
    and "appName = JUndefined \<or> (\<exists>str. appName = JString str)"
    and "senderId = JUndefined \<or> (\<exists>str. senderId = JString str)"
  shows "\<exists>x y.
           getToken nm a arg s = (native_getToken nm x y, record_native_call ''getToken'' [x, y] s) \<and>
           deleteToken nm a arg s =
             (native_deleteToken nm x y, record_native_call ''deleteToken'' [x, y] s) \<and>
           (appName = JUndefined \<longrightarrow> x = name a) \<and>
           (senderId = JUndefined \<longrightarrow> y = messagingSenderId (options a)) \<and>
           (\<forall>str. appName = JString str \<and> str \<noteq> [] \<longrightarrow> x = appName) \<and>
           (\<forall>str. senderId = JString str \<and> str \<noteq> [] \<longrightarrow> y = senderId)"
proof (intro exI conjI)
  show "getToken nm a arg s =
          (native_getToken nm (js_or appName (name a))
             (js_or senderId (messagingSenderId (options a))),
           record_native_call ''getToken''
             [js_or appName (name a), js_or senderId (messagingSenderId (options a))] s)"
    using assms by (rule token_call)
  show "deleteToken nm a arg s =
          (native_deleteToken nm (js_or appName (name a))
             (js_or senderId (messagingSenderId (options a))),
           record_native_call ''deleteToken''
             [js_or appName (name a), js_or senderId (messagingSenderId (options a))] s)"
    using assms by (rule token_call)
qed (auto simp: js_or_def)

theorem token_defaults_witness:
  "getToken example_native example_app JUndefined initial_state =
     (Inr (Resolved (JString ''token'')),
      record_native_call ''getToken'' [JString ''[DEFAULT]'', JString ''1234567890''] initial_state) \<and>
   deleteToken example_native example_app (JObject [(''appName'', JString ''other'')]) initial_state =
     (Inr (Resolved JUndefined),
      record_native_call ''deleteToken'' [JString ''other'', JString ''1234567890''] initial_state)"
proof -
  have d1: "destructure_TokenOptions JUndefined = Inr (JUndefined, JUndefined)"
    by (simp add: destructure_TokenOptions_def)
  have d2: "destructure_TokenOptions (JObject [(''appName'', JString ''other'')]) =
              Inr (JString ''other'', JUndefined)"
    by (simp add: destructure_TokenOptions_def)
  from token_defaults [OF d1, of example_native example_app initial_state]
  have "getToken example_native example_app JUndefined initial_state =
     (Inr (Resolved (JString ''token'')),
      record_native_call ''getToken'' [JString ''[DEFAULT]'', JString ''1234567890''] initial_state)"
    by (auto simp: example_native_def example_app_def)
  moreover from token_defaults [OF d2, of example_native example_app initial_state]
  have "deleteToken example_native example_app (JObject [(''appName'', JString ''other'')]) initial_state =
     (Inr (Resolved JUndefined),
      record_native_call ''deleteToken'' [JString ''other'', JString ''1234567890''] initial_state)"
    by (auto simp: example_native_def example_app_def)
  ultimately show ?thesis by simp
qed

text \<open>
  C9: an empty string for \<^verbatim>\<open>appName\<close> or \<^verbatim>\<open>senderId\<close> passes the validation, and
  the native call is made, but with the default in its place: the name of the
  application, or its configured sender id. Unless that default is itself the empty
  string, the native call does not receive an empty string.
\<close>

theorem empty_string_falls_back:
  assumes "destructure_TokenOptions arg = Inr (appName, senderId)"
    and "appName = JUndefined \<or> (\<exists>str. appName = JString str)"
    and "senderId = JUndefined \<or> (\<exists>str. senderId = JString str)"
  shows "\<exists>x y.
           getToken nm a arg s = (native_getToken nm x y, record_native_call ''getToken'' [x, y] s) \<and>
           deleteToken nm a arg s =
             (native_deleteToken nm x y, record_native_call ''deleteToken'' [x, y] s) \<and>
           (appName = JString [] \<longrightarrow> x = name a) \<and>
           (senderId = JString [] \<longrightarrow> y = messagingSenderId (options a)) \<and>
           (appName = JString [] \<and> name a \<noteq> JString [] \<longrightarrow> x \<noteq> JString []) \<and>
           (senderId = JString [] \<and> messagingSenderId (options a) \<noteq> JString [] \<longrightarrow> y \<noteq> JString [])"
proof (intro exI conjI)
  show "getToken nm a arg s =
          (native_getToken nm (js_or appName (name a))
             (js_or senderId (messagingSenderId (options a))),
           record_native_call ''getToken''
             [js_or appName (name a), js_or senderId (messagingSenderId (options a))] s)"
    using assms by (rule token_call)
  show "deleteToken nm a arg s =
          (native_deleteToken nm (js_or appName (name a))
             (js_or senderId (messagingSenderId (options a))),
           record_native_call ''deleteToken''
             [js_or appName (name a), js_or senderId (messagingSenderId (options a))] s)"
    using assms by (rule token_call)
qed (auto simp: js_or_def)

theorem empty_string_falls_back_witness:
  "getToken example_native example_app
       (JObject [(''appName'', JString []), (''senderId'', JString [])]) initial_state =
     (Inr (Resolved (JString ''token'')),
      record_native_call ''getToken'' [JString ''[DEFAULT]'', JString ''1234567890''] initial_state) \<and>
   deleteToken example_native example_app
       (JObject [(''appName'', JString []), (''senderId'', JString [])]) initial_state =
     (Inr (Resolved JUndefined),
      record_native_call ''deleteToken'' [JString ''[DEFAULT]'', JString ''1234567890''] initial_state)"
proof -
  have d: "destructure_TokenOptions (JObject [(''appName'', JString []), (''senderId'', JString [])]) =
             Inr (JString [], JString [])"
    by (simp add: destructure_TokenOptions_def)
  from empty_string_falls_back [OF d, of example_native example_app initial_state]
  show ?thesis
    by (auto simp: example_native_def example_app_def)
qed

subsection \<open>Topics\<close>

text \<open>
  C10, as the claim states it, fails: \<^verbatim>\<open>subscribeToTopic\<close> and
  \<^verbatim>\<open>unsubscribeFromTopic\<close> have no \<^verbatim>\<open>try\<close> around the native call, so a native call
  that throws on the number 42 makes the method throw.
\<close>

theorem topic_methods_throw_counterexample:
  "fst (subscribeToTopic strict_native (JNumber 42) initial_state) =
     Inl (TypeError ''topic must be a string'') \<and>
   fst (unsubscribeFromTopic strict_native (JNumber 42) initial_state) =
     Inl (TypeError ''topic must be a string'')"
  by (simp add: subscribeToTopic_def unsubscribeFromTopic_def strict_native_def isString_def)

text \<open>
  C10, amended: \<^verbatim>\<open>subscribeToTopic\<close> and \<^verbatim>\<open>unsubscribeFromTopic\<close> validate nothing.
  For every value they make exactly one native call, with that value unchanged, and
  what the call does is what the method does: the promise it returns is returned
  unchanged, and it throws exactly the error that the native call throws.
\<close>

theorem topic_methods_forward_unchanged:
  "subscribeToTopic nm topic s =
     (native_subscribeToTopic nm topic, record_native_call ''subscribeToTopic'' [topic] s) \<and>
   native_calls (snd (subscribeToTopic nm topic s)) =
     native_calls s @ [NativeCall ''subscribeToTopic'' [topic]] \<and>
   (\<forall>p. native_subscribeToTopic nm topic = Inr p \<longrightarrow> fst (subscribeToTopic nm topic s) = Inr p) \<and>
   (\<forall>e. native_subscribeToTopic nm topic = Inl e \<longrightarrow> fst (subscribeToTopic nm topic s) = Inl e) \<and>
   unsubscribeFromTopic nm topic s =
     (native_unsubscribeFromTopic nm topic, record_native_call ''unsubscribeFromTopic'' [topic] s) \<and>
   native_calls (snd (unsubscribeFromTopic nm topic s)) =
     native_calls s @ [NativeCall ''unsubscribeFromTopic'' [topic]] \<and>
   (\<forall>p. native_unsubscribeFromTopic nm topic = Inr p \<longrightarrow>
      fst (unsubscribeFromTopic nm topic s) = Inr p) \<and>
   (\<forall>e. native_unsubscribeFromTopic nm topic = Inl e \<longrightarrow>
      fst (unsubscribeFromTopic nm topic s) = Inl e)"
  by (simp add: subscribeToTopic_def unsubscribeFromTopic_def record_native_call_def)

theorem topic_methods_forward_unchanged_witness:
  "native_subscribeToTopic example_native (JNumber 42) = Inr (Pending 1) \<and>
   fst (subscribeToTopic example_native (JNumber 42) initial_state) = Inr (Pending 1) \<and>
   native_calls (snd (subscribeToTopic example_native (JNumber 42) initial_state)) =
     [NativeCall ''subscribeToTopic'' [JNumber 42]] \<and>
   native_subscribeToTopic strict_native (JNumber 42) = Inl (TypeError ''topic must be a string'') \<and>
   fst (subscribeToTopic strict_native (JNumber 42) initial_state) =
     Inl (TypeError ''topic must be a string'') \<and>
   native_unsubscribeFromTopic example_native (JBool True) = Inr (Pending 2) \<and>
   fst (unsubscribeFromTopic example_native (JBool True) initial_state) = Inr (Pending 2) \<and>
   native_unsubscribeFromTopic strict_native JNull = Inl (TypeError ''topic must be a string'') \<and>
   fst (unsubscribeFromTopic strict_native JNull initial_state) =
     Inl (TypeError ''topic must be a string'')"
  using topic_methods_forward_unchanged [of example_native "JNumber 42" initial_state]
    topic_methods_forward_unchanged [of strict_native "JNumber 42" initial_state]
    topic_methods_forward_unchanged [of example_native "JBool True" initial_state]
    topic_methods_forward_unchanged [of strict_native JNull initial_state]
  by (simp add: subscribeToTopic_def unsubscribeFromTopic_def record_native_call_def
      example_native_def strict_native_def isString_def initial_state_def)

subsection \<open>The unsupported methods\<close>

text \<open>
  C6: whatever the arguments, \<^verbatim>\<open>setBackgroundMessageHandler\<close> and \<^verbatim>\<open>useServiceWorker\<close>
  throw an \<^verbatim>\<open>Error\<close> (the specification's UnsupportedOperation) and leave the state as
  it was; its message is built from the module name \<^verbatim>\<open>messaging\<close> and the name of the
  method, and contains both.
\<close>

theorem unsupported_methods_always_throw:
  "setBackgroundMessageHandler args s =
     (Inl (Error (ERROR_UNSUPPORTED_MODULE_METHOD ''messaging'' ''setBackgroundMessageHandler'')), s) \<and>
   sublist ''messaging'' (ERROR_UNSUPPORTED_MODULE_METHOD ''messaging'' ''setBackgroundMessageHandler'') \<and>
   sublist ''setBackgroundMessageHandler''
     (ERROR_UNSUPPORTED_MODULE_METHOD ''messaging'' ''setBackgroundMessageHandler'') \<and>
   useServiceWorker args s =
     (Inl (Error (ERROR_UNSUPPORTED_MODULE_METHOD ''messaging'' ''useServiceWorker'')), s) \<and>
   sublist ''messaging'' (ERROR_UNSUPPORTED_MODULE_METHOD ''messaging'' ''useServiceWorker'') \<and>
   sublist ''useServiceWorker'' (ERROR_UNSUPPORTED_MODULE_METHOD ''messaging'' ''useServiceWorker'')"
proof -
  have names: "sublist ns (ERROR_UNSUPPORTED_MODULE_METHOD ns m) \<and>
               sublist m (ERROR_UNSUPPORTED_MODULE_METHOD ns m)" for ns m
  proof
    show "sublist ns (ERROR_UNSUPPORTED_MODULE_METHOD ns m)"
      unfolding ERROR_UNSUPPORTED_MODULE_METHOD_def by (rule sublist_appendI)
    have "ERROR_UNSUPPORTED_MODULE_METHOD ns m =
            (''firebase.'' @ ns @ ''().'') @ m @ ''() is unsupported.''"
      by (simp add: ERROR_UNSUPPORTED_MODULE_METHOD_def)
    then show "sublist m (ERROR_UNSUPPORTED_MODULE_METHOD ns m)"
      by (simp only: sublist_appendI)
  qed
  show ?thesis
    using names [of "''messaging''" "''setBackgroundMessageHandler''"]
      names [of "''messaging''" "''useServiceWorker''"]
    by (simp add: setBackgroundMessageHandler_def useServiceWorker_def)
qed

subsection \<open>Registering listeners\<close>

lemma addListener_registers: "l \<in> set (listeners (addListener ch l s) ch)"
  by (simp add: addListener_def)

lemma handler_callback_function:
  "isFunction h \<Longrightarrow> handler_callback h = Some h"
  by (cases h) (simp_all add: isFunction_def handler_callback_def)

lemma handler_callback_observer:
  "\<not> isFunction h \<Longrightarrow> isObject h \<and> isFunction (get_prop h ''next'') \<Longrightarrow>
     handler_callback h = Some (get_prop h ''next'')"
  by (cases h)
    (auto simp: isFunction_iff isObject_def handler_callback_def split: option.splits)

lemma handler_callback_none:
  "\<not> isFunction h \<Longrightarrow> \<not> (isObject h \<and> isFunction (get_prop h ''next'')) \<Longrightarrow>
     handler_callback h = None"
  by (cases h)
    (auto simp: isFunction_iff isObject_def handler_callback_def split: option.splits jsval.splits)

lemma handler_callback_Some_iff:
  "(\<exists>cb. handler_callback h = Some cb) \<longleftrightarrow>
     (\<exists>f. h = JFunction f) \<or> (\<exists>ps f. h = JObject ps \<and> map_of ps ''next'' = Some (JFunction f))"
  by (cases h) (auto simp: handler_callback_def split: option.splits jsval.splits)

lemma onMessage_cases:
  "onMessage h s =
     (case handler_callback h of
        Some cb \<Rightarrow>
          (Inr (OnMessageDisposer (Callback cb)),
           addListener ''onMessage'' (Callback cb) (info ''Creating onMessage listener'' s))
      | None \<Rightarrow>
          (Inl (Error ''Messaging.onMessage failed: First argument must be a function or observer object with a `next` function.''), s))"
proof (cases "isFunction h")
  case True
  then show ?thesis by (simp add: onMessage_def handler_callback_function)
next
  case nf: False
  show ?thesis
  proof (cases "isObject h \<and> isFunction (get_prop h ''next'')")
    case True
    with nf show ?thesis by (simp add: onMessage_def handler_callback_observer)
  next
    case False
    with nf show ?thesis by (simp add: onMessage_def handler_callback_none)
  qed
qed

lemma onTokenRefresh_cases:
  "onTokenRefresh h s =
     (case handler_callback h of
        Some cb \<Rightarrow>
          (Inr (OnTokenRefreshDisposer (Callback cb)),
           addListener ''onTokenRefresh'' (Callback cb) (info ''Creating onTokenRefresh listener'' s))
      | None \<Rightarrow>
          (Inl (Error ''Messaging.onTokenRefresh failed: First argument must be a function or observer object with a `next` function.''), s))"
proof (cases "isFunction h")
  case True
  then show ?thesis by (simp add: onTokenRefresh_def handler_callback_function)
next
  case nf: False
  show ?thesis
  proof (cases "isObject h \<and> isFunction (get_prop h ''next'')")
    case True
    with nf show ?thesis by (simp add: onTokenRefresh_def handler_callback_observer)
  next
    case False
    with nf show ?thesis by (simp add: onTokenRefresh_def handler_callback_none)
  qed
qed

text \<open>
  C3: \<^verbatim>\<open>onMessage\<close> and \<^verbatim>\<open>onTokenRefresh\<close> succeed exactly when the argument is a
  function or an object whose \<^verbatim>\<open>next\<close> member is a function. On success the function
  itself, or that member, is a listener of the channel afterwards; on any other
  argument the method throws an \<^verbatim>\<open>Error\<close> (the specification's InvalidArgument) and the
  state is left as it was, so nothing is registered.
\<close>

theorem registration_accepts_exactly_handlers:
  "((\<exists>d s'. onMessage h s = (Inr d, s')) \<longleftrightarrow>
      (\<exists>f. h = JFunction f) \<or> (\<exists>ps f. h = JObject ps \<and> map_of ps ''next'' = Some (JFunction f))) \<and>
   ((\<exists>d s'. onTokenRefresh h s = (Inr d, s')) \<longleftrightarrow>
      (\<exists>f. h = JFunction f) \<or> (\<exists>ps f. h = JObject ps \<and> map_of ps ''next'' = Some (JFunction f))) \<and>
   (case handler_callback h of
      Some cb \<Rightarrow>
        onMessage h s =
          (Inr (OnMessageDisposer (Callback cb)),
           addListener ''onMessage'' (Callback cb) (info ''Creating onMessage listener'' s)) \<and>
        Callback cb \<in> set (listeners (snd (onMessage h s)) ''onMessage'') \<and>
        onTokenRefresh h s =
          (Inr (OnTokenRefreshDisposer (Callback cb)),
           addListener ''onTokenRefresh'' (Callback cb)
             (info ''Creating onTokenRefresh listener'' s)) \<and>
        Callback cb \<in> set (listeners (snd (onTokenRefresh h s)) ''onTokenRefresh'')
    | None \<Rightarrow>
        onMessage h s =
          (Inl (Error ''Messaging.onMessage failed: First argument must be a function or observer object with a `next` function.''), s) \<and>
        onTokenRefresh h s =
          (Inl (Error ''Messaging.onTokenRefresh failed: First argument must be a function or observer object with a `next` function.''), s))"
proof (intro conjI)
  have "(\<exists>d s'. onMessage h s = (Inr d, s')) \<longleftrightarrow> (\<exists>cb. handler_callback h = Some cb)"
    by (auto simp: onMessage_cases split: option.splits)
  then show "(\<exists>d s'. onMessage h s = (Inr d, s')) \<longleftrightarrow>
      (\<exists>f. h = JFunction f) \<or> (\<exists>ps f. h = JObject ps \<and> map_of ps ''next'' = Some (JFunction f))"
    by (simp only: handler_callback_Some_iff)
  have "(\<exists>d s'. onTokenRefresh h s = (Inr d, s')) \<longleftrightarrow> (\<exists>cb. handler_callback h = Some cb)"
    by (auto simp: onTokenRefresh_cases split: option.splits)
  then show "(\<exists>d s'. onTokenRefresh h s = (Inr d, s')) \<longleftrightarrow>
      (\<exists>f. h = JFunction f) \<or> (\<exists>ps f. h = JObject ps \<and> map_of ps ''next'' = Some (JFunction f))"
    by (simp only: handler_callback_Some_iff)
qed (simp add: onMessage_cases onTokenRefresh_cases addListener_registers split: option.splits)

theorem registration_accepts_exactly_handlers_witness:
  "handler_callback (JObject [(''next'', JFunction 2)]) = Some (JFunction 2) \<and>
   fst (onMessage (JObject [(''next'', JFunction 2)]) initial_state) =
     Inr (OnMessageDisposer (Callback (JFunction 2))) \<and>
   Callback (JFunction 2) \<in>
     set (listeners (snd (onMessage (JObject [(''next'', JFunction 2)]) initial_state)) ''onMessage'') \<and>
   handler_callback (JObject [(''next'', JString ''no'')]) = None \<and>
   onTokenRefresh (JObject [(''next'', JString ''no'')]) initial_state =
     (Inl (Error ''Messaging.onTokenRefresh failed: First argument must be a function or observer object with a `next` function.''),
      initial_state)"
proof -
  have a: "handler_callback (JObject [(''next'', JFunction 2)]) = Some (JFunction 2)"
    and r: "handler_callback (JObject [(''next'', JString ''no'')]) = None"
    by (simp_all add: handler_callback_def)
  from registration_accepts_exactly_handlers [of "JObject [(''next'', JFunction 2)]" initial_state]
    registration_accepts_exactly_handlers [of "JObject [(''next'', JString ''no'')]" initial_state]
  show ?thesis
    by (simp add: a r addListener_registers)
qed

subsection \<open>What the facade keeps on the public channels\<close>

lemma only_callbacks_removeAll: "only_callbacks ls \<Longrightarrow> only_callbacks (removeAll l ls)"
  by (simp add: only_callbacks_def)

lemma constructor_keeps_public_channels:
  "ch \<noteq> ''messaging_message_received'' \<Longrightarrow> ch \<noteq> ''messaging_token_refreshed'' \<Longrightarrow>
     listeners (snd (Messaging_constructor platform_OS nm s)) ch = listeners s ch"
  by (auto simp: Messaging_constructor_def Let_def addListener_def record_native_call_def
      split: sum.splits)

lemma registration_keeps_only_callbacks:
  assumes "only_callbacks (listeners s ch)"
  shows "only_callbacks (listeners (snd (onMessage h s)) ch)"
    and "only_callbacks (listeners (snd (onTokenRefresh h s)) ch)"
  using assms
  by (auto simp: onMessage_cases onTokenRefresh_cases addListener_def info_def only_callbacks_def
      split: option.splits)

lemma disposal_keeps_only_callbacks:
  "only_callbacks (listeners s ch) \<Longrightarrow> only_callbacks (listeners (run_disposer d s) ch)"
  by (cases d) (auto simp: removeListener_def info_def only_callbacks_def)

subsection \<open>Dispatch\<close>

lemma callbacks_of_set: "f \<in> set (callbacks_of ls) \<longleftrightarrow> Callback f \<in> set ls"
  by (induction ls rule: callbacks_of.induct) auto

lemma callbacks_of_removeAll:
  "callbacks_of (removeAll (Callback f) ls) = removeAll f (callbacks_of ls)"
  by (induction ls rule: callbacks_of.induct) auto

lemma invoke_all_only_callbacks:
  "only_callbacks ls \<Longrightarrow>
     invoke_all k ls v s = Some (s\<lparr>invocations := invocations s @ map (\<lambda>f. (f, v)) (callbacks_of ls)\<rparr>)"
proof (induction ls arbitrary: s)
  case Nil
  then show ?case by simp
next
  case (Cons l ls)
  then have rest: "only_callbacks ls" and "l \<noteq> MessageFanOut" and "l \<noteq> TokenFanOut"
    by (auto simp: only_callbacks_def)
  then obtain f where l: "l = Callback f" by (cases l) auto
  show ?case
    by (simp add: l Cons.IH [OF rest] record_invocation_def)
qed

lemma deliveries_listeners:
  "listeners s' = listeners s \<Longrightarrow> deliveries s' v ls = deliveries s v ls"
  by (induction s v ls rule: deliveries.induct) auto

text \<open>
  With user callbacks only on the two public channels, one unit of fuel is enough for
  any list of listeners, and the dispatch delivers exactly \<open>deliveries\<close>.
\<close>

lemma invoke_all_deliveries:
  assumes "only_callbacks (listeners s ''onMessage'')"
    and "only_callbacks (listeners s ''onTokenRefresh'')"
  shows "invoke_all (Suc k) ls v s = Some (s\<lparr>invocations := invocations s @ deliveries s v ls\<rparr>)"
  using assms
proof (induction ls arbitrary: s)
  case Nil
  then show ?case by simp
next
  case (Cons l ls)
  show ?case
  proof (cases l)
    case (Callback f)
    have "invoke_all (Suc k) ls v (record_invocation f v s) =
            Some (record_invocation f v s
                    \<lparr>invocations := invocations (record_invocation f v s)
                       @ deliveries (record_invocation f v s) v ls\<rparr>)"
      using Cons.prems by (intro Cons.IH) (simp_all add: record_invocation_def)
    moreover have "deliveries (record_invocation f v s) v ls = deliveries s v ls"
      by (rule deliveries_listeners) (simp add: record_invocation_def)
    ultimately show ?thesis
      by (simp add: Callback record_invocation_def)
  next
    case MessageFanOut
    let ?s' = "s\<lparr>invocations := invocations s
                 @ map (\<lambda>f. (f, new_RemoteMessage v)) (callbacks_of (listeners s ''onMessage''))\<rparr>"
    have inner: "invoke_all k (listeners s ''onMessage'') (new_RemoteMessage v) s = Some ?s'"
      using Cons.prems(1) by (rule invoke_all_only_callbacks)
    have "invoke_all (Suc k) ls v ?s' =
            Some (?s'\<lparr>invocations := invocations ?s' @ deliveries ?s' v ls\<rparr>)"
      using Cons.prems by (intro Cons.IH) simp_all
    moreover have "deliveries ?s' v ls = deliveries s v ls"
      by (rule deliveries_listeners) simp
    ultimately show ?thesis
      by (simp add: MessageFanOut inner)
  next
    case TokenFanOut
    let ?s' = "s\<lparr>invocations := invocations s
                 @ map (\<lambda>f. (f, v)) (callbacks_of (listeners s ''onTokenRefresh''))\<rparr>"
    have inner: "invoke_all k (listeners s ''onTokenRefresh'') v s = Some ?s'"
      using Cons.prems(2) by (rule invoke_all_only_callbacks)
    have "invoke_all (Suc k) ls v ?s' =
            Some (?s'\<lparr>invocations := invocations ?s' @ deliveries ?s' v ls\<rparr>)"
      using Cons.prems by (intro Cons.IH) simp_all
    moreover have "deliveries ?s' v ls = deliveries s v ls"
      by (rule deliveries_listeners) simp
    ultimately show ?thesis
      by (simp add: TokenFanOut inner)
  qed
qed

lemma deliveries_fan_out:
  "MessageFanOut \<in> set ls \<Longrightarrow> Callback f \<in> set (listeners s ''onMessage'') \<Longrightarrow>
     (f, new_RemoteMessage v) \<in> set (deliveries s v ls)"
  by (induction s v ls rule: deliveries.induct) (auto simp: callbacks_of_set)

lemma constructor_registers_fan_out:
  "MessageFanOut \<in> set (listeners (snd (Messaging_constructor platform_OS nm s))
     ''messaging_message_received'')"
  by (auto simp: Messaging_constructor_def Let_def addListener_def record_native_call_def
      split: sum.splits)

lemma two_listeners_registry:
  "listeners two_listeners ''messaging_message_received'' = [MessageFanOut]"
  "listeners two_listeners ''messaging_token_refreshed'' = [TokenFanOut]"
  "listeners two_listeners ''onMessage'' = [Callback (JFunction 1), Callback (JFunction 2)]"
  "listeners two_listeners ''onTokenRefresh'' = []"
  "invocations two_listeners = []"
  by (simp_all add: two_listeners_def constructed_def onMessage_def Messaging_constructor_def
      initial_state_def addListener_def info_def isFunction_def isObject_def Let_def)

lemma two_token_listeners_registry:
  "listeners two_token_listeners ''onTokenRefresh'' = [Callback (JFunction 3), Callback (JFunction 4)]"
  "invocations two_token_listeners = []"
  by (simp_all add: two_token_listeners_def constructed_def onTokenRefresh_def
      Messaging_constructor_def initial_state_def addListener_def info_def isFunction_def Let_def)

text \<open>
  C4: the constructor registers its closure on \<^verbatim>\<open>messaging_message_received\<close>, and
  invoking that closure with a payload \<open>p\<close> is emitting \<^verbatim>\<open>new RemoteMessage(p)\<close>, an
  instance of \<^verbatim>\<open>RemoteMessage\<close>, on \<^verbatim>\<open>onMessage\<close>. So, once the closure is registered
  and the public channels hold user callbacks only, an inbound event with payload \<open>p\<close>
  is dispatched with one unit of fuel or more, and every listener registered on
  \<^verbatim>\<open>onMessage\<close> at that time is invoked with \<^verbatim>\<open>new RemoteMessage(p)\<close>.
\<close>

theorem native_message_fans_out_wrapped:
  assumes "MessageFanOut \<in> set (listeners s ''messaging_message_received'')"
    and "only_callbacks (listeners s ''onMessage'')"
    and "only_callbacks (listeners s ''onTokenRefresh'')"
  shows "MessageFanOut \<in> set (listeners (snd (Messaging_constructor platform_OS nm s0))
           ''messaging_message_received'') \<and>
         invoke_all (Suc k) [MessageFanOut] p s = emit k ''onMessage'' (new_RemoteMessage p) s \<and>
         instanceof_RemoteMessage (new_RemoteMessage p) \<and>
         (\<exists>new. emit (Suc k) ''messaging_message_received'' p s =
                  Some (s\<lparr>invocations := invocations s @ new\<rparr>) \<and>
                (\<forall>f. Callback f \<in> set (listeners s ''onMessage'') \<longrightarrow>
                   (f, new_RemoteMessage p) \<in> set new))"
proof (intro conjI)
  show "MessageFanOut \<in> set (listeners (snd (Messaging_constructor platform_OS nm s0))
          ''messaging_message_received'')"
    by (rule constructor_registers_fan_out)
  show "invoke_all (Suc k) [MessageFanOut] p s = emit k ''onMessage'' (new_RemoteMessage p) s"
    by (simp add: emit_def split: option.splits)
  show "instanceof_RemoteMessage (new_RemoteMessage p)"
    by (simp add: new_RemoteMessage_def)
  have "emit (Suc k) ''messaging_message_received'' p s =
          Some (s\<lparr>invocations := invocations s
                  @ deliveries s p (listeners s ''messaging_message_received'')\<rparr>)"
    unfolding emit_def using assms(2,3) by (rule invoke_all_deliveries)
  moreover have "\<forall>f. Callback f \<in> set (listeners s ''onMessage'') \<longrightarrow>
      (f, new_RemoteMessage p) \<in> set (deliveries s p (listeners s ''messaging_message_received''))"
    using assms(1) by (simp add: deliveries_fan_out)
  ultimately show "\<exists>new. emit (Suc k) ''messaging_message_received'' p s =
                  Some (s\<lparr>invocations := invocations s @ new\<rparr>) \<and>
                (\<forall>f. Callback f \<in> set (listeners s ''onMessage'') \<longrightarrow>
                   (f, new_RemoteMessage p) \<in> set new)"
    by blast
qed

theorem native_message_fans_out_wrapped_witness:
  "MessageFanOut \<in> set (listeners two_listeners ''messaging_message_received'') \<and>
   only_callbacks (listeners two_listeners ''onMessage'') \<and>
   only_callbacks (listeners two_listeners ''onTokenRefresh'') \<and>
   Callback (JFunction 1) \<in> set (listeners two_listeners ''onMessage'') \<and>
   Callback (JFunction 2) \<in> set (listeners two_listeners ''onMessage'') \<and>
   (\<exists>new. emit (Suc 0) ''messaging_message_received'' (JString ''hello'') two_listeners =
            Some (two_listeners\<lparr>invocations := invocations two_listeners @ new\<rparr>) \<and>
          (JFunction 1, new_RemoteMessage (JString ''hello'')) \<in> set new \<and>
          (JFunction 2, new_RemoteMessage (JString ''hello'')) \<in> set new)"
proof -
  have h1: "MessageFanOut \<in> set (listeners two_listeners ''messaging_message_received'')"
    and h2: "only_callbacks (listeners two_listeners ''onMessage'')"
    and h3: "only_callbacks (listeners two_listeners ''onTokenRefresh'')"
    by (simp_all add: two_listeners_registry only_callbacks_def)
  have regs: "Callback (JFunction 1) \<in> set (listeners two_listeners ''onMessage'')"
    "Callback (JFunction 2) \<in> set (listeners two_listeners ''onMessage'')"
    by (simp_all add: two_listeners_registry)
  from native_message_fans_out_wrapped [OF h1 h2 h3, of "''android''" example_native initial_state 0
      "JString ''hello''"]
  obtain new where
    "emit (Suc 0) ''messaging_message_received'' (JString ''hello'') two_listeners =
       Some (two_listeners\<lparr>invocations := invocations two_listeners @ new\<rparr>)"
    and "\<forall>f. Callback f \<in> set (listeners two_listeners ''onMessage'') \<longrightarrow>
           (f, new_RemoteMessage (JString ''hello'')) \<in> set new"
    by blast
  with regs h1 h2 h3 show ?thesis by blast
qed

subsection \<open>Disposers\<close>

lemma run_disposer_listeners:
  "listeners (run_disposer (OnMessageDisposer l) s) =
     (listeners s)(''onMessage'' := removeAll l (listeners s ''onMessage''))"
  "listeners (run_disposer (OnTokenRefreshDisposer l) s) =
     (listeners s)(''onTokenRefresh'' := removeAll l (listeners s ''onTokenRefresh''))"
  by (simp_all add: removeListener_def info_def)

lemma run_disposer_invocations: "invocations (run_disposer d s) = invocations s"
  by (cases d) (simp_all add: removeListener_def info_def)

lemma fire_after_disposal:
  assumes "listeners s' ch = removeAll (Callback cb) (listeners s ch)"
    and "invocations s' = invocations s"
    and "only_callbacks (listeners s ch)"
  shows "emit k ch v s' =
           Some (s'\<lparr>invocations := invocations s
                   @ map (\<lambda>f. (f, v)) (removeAll cb (callbacks_of (listeners s ch)))\<rparr>)"
proof -
  have "only_callbacks (listeners s' ch)"
    using assms(1,3) by (simp add: only_callbacks_removeAll)
  then have "invoke_all k (listeners s' ch) v s' =
      Some (s'\<lparr>invocations := invocations s' @ map (\<lambda>f. (f, v)) (callbacks_of (listeners s' ch))\<rparr>)"
    by (rule invoke_all_only_callbacks)
  then show ?thesis
    by (simp add: emit_def assms(1,2) callbacks_of_removeAll)
qed

text \<open>
  C5: a registration that succeeded returns the disposer of the callback it resolved.
  Run in any later state, the disposer takes that callback out of its channel and
  changes no other channel and no other listener. When the channel is then fired, the
  callbacks invoked are those the channel held, in order, without the disposed one: it
  is not invoked, every other one is.
\<close>

theorem disposer_removes_exactly_its_callback:
  "(onMessage h s0 = (Inr d, s1) \<longrightarrow>
      (\<exists>cb. handler_callback h = Some cb \<and> d = OnMessageDisposer (Callback cb) \<and>
         Callback cb \<in> set (listeners s1 ''onMessage'') \<and>
         listeners (run_disposer d s) =
           (listeners s)(''onMessage'' := removeAll (Callback cb) (listeners s ''onMessage'')) \<and>
         Callback cb \<notin> set (listeners (run_disposer d s) ''onMessage'') \<and>
         (only_callbacks (listeners s ''onMessage'') \<longrightarrow>
            (\<exists>new. emit k ''onMessage'' v (run_disposer d s) =
                     Some (run_disposer d s\<lparr>invocations := invocations s @ new\<rparr>) \<and>
                   new = map (\<lambda>f. (f, v)) (removeAll cb (callbacks_of (listeners s ''onMessage''))) \<and>
                   (\<forall>x. (cb, x) \<notin> set new) \<and>
                   (\<forall>g. Callback g \<in> set (listeners s ''onMessage'') \<and> g \<noteq> cb \<longrightarrow>
                      (g, v) \<in> set new))))) \<and>
   (onTokenRefresh h s0 = (Inr d, s1) \<longrightarrow>
      (\<exists>cb. handler_callback h = Some cb \<and> d = OnTokenRefreshDisposer (Callback cb) \<and>
         Callback cb \<in> set (listeners s1 ''onTokenRefresh'') \<and>
         listeners (run_disposer d s) =
           (listeners s)(''onTokenRefresh'' := removeAll (Callback cb) (listeners s ''onTokenRefresh'')) \<and>
         Callback cb \<notin> set (listeners (run_disposer d s) ''onTokenRefresh'') \<and>
         (only_callbacks (listeners s ''onTokenRefresh'') \<longrightarrow>
            (\<exists>new. emit k ''onTokenRefresh'' v (run_disposer d s) =
                     Some (run_disposer d s\<lparr>invocations := invocations s @ new\<rparr>) \<and>
                   new = map (\<lambda>f. (f, v))
                           (removeAll cb (callbacks_of (listeners s ''onTokenRefresh''))) \<and>
                   (\<forall>x. (cb, x) \<notin> set new) \<and>
                   (\<forall>g. Callback g \<in> set (listeners s ''onTokenRefresh'') \<and> g \<noteq> cb \<longrightarrow>
                      (g, v) \<in> set new)))))"
proof (intro conjI impI)
  assume reg: "onMessage h s0 = (Inr d, s1)"
  then obtain cb where cb: "handler_callback h = Some cb"
    and d: "d = OnMessageDisposer (Callback cb)"
    and s1: "s1 = addListener ''onMessage'' (Callback cb) (info ''Creating onMessage listener'' s0)"
    by (auto simp: onMessage_cases split: option.splits)
  have ls: "listeners (run_disposer d s) =
      (listeners s)(''onMessage'' := removeAll (Callback cb) (listeners s ''onMessage''))"
    unfolding d by (rule run_disposer_listeners)
  have fire: "emit k ''onMessage'' v (run_disposer d s) =
      Some (run_disposer d s\<lparr>invocations := invocations s
              @ map (\<lambda>f. (f, v)) (removeAll cb (callbacks_of (listeners s ''onMessage'')))\<rparr>)"
    if "only_callbacks (listeners s ''onMessage'')"
    using _ run_disposer_invocations that by (rule fire_after_disposal) (simp add: ls)
  show "\<exists>cb. handler_callback h = Some cb \<and> d = OnMessageDisposer (Callback cb) \<and>
         Callback cb \<in> set (listeners s1 ''onMessage'') \<and>
         listeners (run_disposer d s) =
           (listeners s)(''onMessage'' := removeAll (Callback cb) (listeners s ''onMessage'')) \<and>
         Callback cb \<notin> set (listeners (run_disposer d s) ''onMessage'') \<and>
         (only_callbacks (listeners s ''onMessage'') \<longrightarrow>
            (\<exists>new. emit k ''onMessage'' v (run_disposer d s) =
                     Some (run_disposer d s\<lparr>invocations := invocations s @ new\<rparr>) \<and>
                   new = map (\<lambda>f. (f, v)) (removeAll cb (callbacks_of (listeners s ''onMessage''))) \<and>
                   (\<forall>x. (cb, x) \<notin> set new) \<and>
                   (\<forall>g. Callback g \<in> set (listeners s ''onMessage'') \<and> g \<noteq> cb \<longrightarrow>
                      (g, v) \<in> set new)))"
    using cb d ls fire
    by (intro exI [of _ cb]) (auto simp: s1 addListener_registers callbacks_of_set
        simp del: run_disposer.simps)
next
  assume reg: "onTokenRefresh h s0 = (Inr d, s1)"
  then obtain cb where cb: "handler_callback h = Some cb"
    and d: "d = OnTokenRefreshDisposer (Callback cb)"
    and s1: "s1 = addListener ''onTokenRefresh'' (Callback cb)
                    (info ''Creating onTokenRefresh listener'' s0)"
    by (auto simp: onTokenRefresh_cases split: option.splits)
  have ls: "listeners (run_disposer d s) =
      (listeners s)(''onTokenRefresh'' := removeAll (Callback cb) (listeners s ''onTokenRefresh''))"
    unfolding d by (rule run_disposer_listeners)
  have fire: "emit k ''onTokenRefresh'' v (run_disposer d s) =
      Some (run_disposer d s\<lparr>invocations := invocations s
              @ map (\<lambda>f. (f, v)) (removeAll cb (callbacks_of (listeners s ''onTokenRefresh'')))\<rparr>)"
    if "only_callbacks (listeners s ''onTokenRefresh'')"
    using _ run_disposer_invocations that by (rule fire_after_disposal) (simp add: ls)
  show "\<exists>cb. handler_callback h = Some cb \<and> d = OnTokenRefreshDisposer (Callback cb) \<and>
         Callback cb \<in> set (listeners s1 ''onTokenRefresh'') \<and>
         listeners (run_disposer d s) =
           (listeners s)(''onTokenRefresh'' := removeAll (Callback cb) (listeners s ''onTokenRefresh'')) \<and>
         Callback cb \<notin> set (listeners (run_disposer d s) ''onTokenRefresh'') \<and>
         (only_callbacks (listeners s ''onTokenRefresh'') \<longrightarrow>
            (\<exists>new. emit k ''onTokenRefresh'' v (run_disposer d s) =
                     Some (run_disposer d s\<lparr>invocations := invocations s @ new\<rparr>) \<and>
                   new = map (\<lambda>f. (f, v))
                           (removeAll cb (callbacks_of (listeners s ''onTokenRefresh''))) \<and>
                   (\<forall>x. (cb, x) \<notin> set new) \<and>
                   (\<forall>g. Callback g \<in> set (listeners s ''onTokenRefresh'') \<and> g \<noteq> cb \<longrightarrow>
                      (g, v) \<in> set new)))"
    using cb d ls fire
    by (intro exI [of _ cb]) (auto simp: s1 addListener_registers callbacks_of_set
        simp del: run_disposer.simps)
qed


theorem disposer_removes_exactly_its_callback_witness:
  "fst (onMessage (JFunction 1) constructed) = Inr (OnMessageDisposer (Callback (JFunction 1))) \<and>
   only_callbacks (listeners two_listeners ''onMessage'') \<and>
   emit 0 ''onMessage'' (JString ''hi'')
       (run_disposer (OnMessageDisposer (Callback (JFunction 1))) two_listeners) =
     Some (run_disposer (OnMessageDisposer (Callback (JFunction 1))) two_listeners
             \<lparr>invocations := [(JFunction 2, JString ''hi'')]\<rparr>) \<and>
   fst (onTokenRefresh (JFunction 4) constructed) =
     Inr (OnTokenRefreshDisposer (Callback (JFunction 4))) \<and>
   only_callbacks (listeners two_token_listeners ''onTokenRefresh'') \<and>
   emit 0 ''onTokenRefresh'' (JString ''tok'')
       (run_disposer (OnTokenRefreshDisposer (Callback (JFunction 4))) two_token_listeners) =
     Some (run_disposer (OnTokenRefreshDisposer (Callback (JFunction 4))) two_token_listeners
             \<lparr>invocations := [(JFunction 3, JString ''tok'')]\<rparr>)"
proof -
  let ?d = "OnMessageDisposer (Callback (JFunction 1))"
  let ?e = "OnTokenRefreshDisposer (Callback (JFunction 4))"
  have f: "fst (onMessage (JFunction 1) constructed) = Inr ?d"
    and f': "fst (onTokenRefresh (JFunction 4) constructed) = Inr ?e"
    by (simp_all add: onMessage_def onTokenRefresh_def isFunction_def)
  have reg: "onMessage (JFunction 1) constructed = (Inr ?d, snd (onMessage (JFunction 1) constructed))"
    and reg': "onTokenRefresh (JFunction 4) constructed =
                 (Inr ?e, snd (onTokenRefresh (JFunction 4) constructed))"
    using f f' by (simp_all add: prod_eq_iff)
  have oc: "only_callbacks (listeners two_listeners ''onMessage'')"
    and oc': "only_callbacks (listeners two_token_listeners ''onTokenRefresh'')"
    by (simp_all add: two_listeners_registry two_token_listeners_registry only_callbacks_def)
  from disposer_removes_exactly_its_callback
         [of "JFunction 1" constructed ?d "snd (onMessage (JFunction 1) constructed)"
             two_listeners 0 "JString ''hi''"] reg oc
  have "emit 0 ''onMessage'' (JString ''hi'') (run_disposer ?d two_listeners) =
          Some (run_disposer ?d two_listeners\<lparr>invocations := [(JFunction 2, JString ''hi'')]\<rparr>)"
    by (simp add: two_listeners_registry del: run_disposer.simps)
  moreover
  from disposer_removes_exactly_its_callback
         [of "JFunction 4" constructed ?e "snd (onTokenRefresh (JFunction 4) constructed)"
             two_token_listeners 0 "JString ''tok''"] reg' oc'
  have "emit 0 ''onTokenRefresh'' (JString ''tok'') (run_disposer ?e two_token_listeners) =
          Some (run_disposer ?e two_token_listeners\<lparr>invocations := [(JFunction 3, JString ''tok'')]\<rparr>)"
    by (simp add: two_token_listeners_registry del: run_disposer.simps)
  ultimately show ?thesis
    using f f' oc oc' by simp
qed

end
